theory Spec2Isabelle
  imports Complex_Main "HOL-Library.AList"
begin

section \<open>Platform strings and regular expressions\<close>

subsection \<open>Regular expressions\<close>

text \<open>
  The regular-expression literals of the sources use characters, character ranges,
  sequence, alternation, \<^verbatim>\<open>?\<close>, bounded repetition \<^verbatim>\<open>{m,n}\<close> and \<^verbatim>\<open>+\<close>, and are anchored
  with \<^verbatim>\<open>^\<close> and \<^verbatim>\<open>$\<close> (no flags). \<open>rmatch r s\<close> lists the remainders of \<open>s\<close> after every way
  of matching \<open>r\<close> against a prefix of \<open>s\<close>; \<^verbatim>\<open>/^r$/.test(s)\<close> holds iff one way consumes
  all of \<open>s\<close>.
\<close>

datatype regex =
    REps
  | RChar char
  | RRange char char
  | RSeq regex regex
  | RAlt regex regex
  | ROpt regex
  | RRep nat nat regex
  | RPlus regex

fun reps :: "(string \<Rightarrow> string list) \<Rightarrow> nat \<Rightarrow> nat \<Rightarrow> string \<Rightarrow> string list" where
  "reps f lo 0 s = (if lo = 0 then [s] else [])"
| "reps f lo (Suc hi) s =
     (if lo = 0 then [s] else []) @ concat (map (reps f (lo - 1) hi) (f s))"

primrec rmatch :: "regex \<Rightarrow> string \<Rightarrow> string list" where
  "rmatch REps s = [s]"
| "rmatch (RChar c) s = (case s of [] \<Rightarrow> [] | x # xs \<Rightarrow> if x = c then [xs] else [])"
| "rmatch (RRange a b) s =
     (case s of [] \<Rightarrow> []
      | x # xs \<Rightarrow>
          if (of_char a :: nat) \<le> of_char x \<and> (of_char x :: nat) \<le> of_char b
          then [xs] else [])"
| "rmatch (RSeq p q) s = concat (map (rmatch q) (rmatch p s))"
| "rmatch (RAlt p q) s = rmatch p s @ rmatch q s"
| "rmatch (ROpt p) s = rmatch p s @ [s]"
| "rmatch (RRep lo hi p) s = reps (rmatch p) lo hi s"
| "rmatch (RPlus p) s = reps (rmatch p) 1 (Suc (length s)) s"

definition regex_test :: "regex \<Rightarrow> string \<Rightarrow> bool" where
  "regex_test r s = ([] \<in> set (rmatch r s))"

primrec lit :: "string \<Rightarrow> regex" where
  "lit [] = REps"
| "lit (c # cs) = RSeq (RChar c) (lit cs)"

definition digitRx :: regex where
  "digitRx = RRange CHR ''0'' CHR ''9''"

subsection \<open>String methods\<close>

text \<open>\<^verbatim>\<open>s.split(sep)\<close> for a one-character separator: never empty, \<^verbatim>\<open>''.split(',')\<close> is \<^verbatim>\<open>['']\<close>.\<close>

fun split :: "char \<Rightarrow> string \<Rightarrow> string list" where
  "split sep [] = [[]]"
| "split sep (c # cs) =
     (if c = sep then [] # split sep cs
      else (case split sep cs of [] \<Rightarrow> [[c]] | p # ps \<Rightarrow> (c # p) # ps))"

text \<open>
  \<^verbatim>\<open>s.trim()\<close> removes white space and line terminators at both ends; among the code
  points below 256 (a header value holds no others) these are 9 to 13, 32 and 160.
\<close>

definition isWhiteSpace :: "char \<Rightarrow> bool" where
  "isWhiteSpace c = ((of_char c :: nat) \<in> {9, 10, 11, 12, 13, 32, 160})"

definition trim :: "string \<Rightarrow> string" where
  "trim s = rev (dropWhile isWhiteSpace (rev (dropWhile isWhiteSpace s)))"

text \<open>\<^verbatim>\<open>n.toString()\<close> for an integer-valued number: decimal digits, \<^verbatim>\<open>-\<close> before a negative one.\<close>

definition digit_char :: "nat \<Rightarrow> char" where
  "digit_char d = ''0123456789'' ! d"

function string_of_nat :: "nat \<Rightarrow> string" where
  "string_of_nat n =
     (if n < 10 then [digit_char n] else string_of_nat (n div 10) @ [digit_char (n mod 10)])"
  by pat_completeness auto
termination
  by (relation "measure id") auto

declare string_of_nat.simps [simp del]

definition string_of_int :: "int \<Rightarrow> string" where
  "string_of_int i = (if i < 0 then CHR ''-'' # string_of_nat (nat (- i)) else string_of_nat (nat i))"

section \<open>Requests, URLs and JSON values\<close>

text \<open>
  A JavaScript string of a JSON body is a sequence of UTF-16 code units; \<open>ustr\<close> embeds
  a literal.
\<close>

type_synonym ustring = "nat list"

definition ustr :: "string \<Rightarrow> ustring" where
  "ustr s = map of_char s"

text \<open>
  A JavaScript number: a finite double (a rational) or one of the three non-finite
  values.
\<close>

datatype jsnum = Finite rat | PosInfinity | NegInfinity | NaN

datatype json =
    JNull
  | JBool bool
  | JNum jsnum
  | JStr ustring
  | JArr "json list"
  | JObj "(ustring \<times> json) list"

text \<open>
  The part of a \<^verbatim>\<open>Request\<close> the handlers read: its headers (keyed by lower-case name, as
  \<^verbatim>\<open>Headers.get\<close> looks them up) and the outcome of \<^verbatim>\<open>await request.json()\<close>, \<open>None\<close> when
  that rejects.
\<close>

record Request =
  headers :: "(string \<times> string) list"
  jsonBody :: "json option"

definition headers_get :: "Request \<Rightarrow> string \<Rightarrow> string option" where
  "headers_get request name = map_of (Request.headers request) name"

text \<open>
  Of a \<^verbatim>\<open>URL\<close> object the code reads \<^verbatim>\<open>origin\<close> only. The constructor \<^verbatim>\<open>new URL(s)\<close> belongs to
  the platform: the functions below take it as the parameter \<open>newURL\<close>, \<open>None\<close> standing
  for the \<^verbatim>\<open>TypeError\<close> it throws on a string that is not a URL.
\<close>

record URL =
  origin :: string

datatype error = TypeError

text \<open>
  A finite table of the URL constructor, used only to instantiate \<open>newURL\<close> in the
  examples below: three URLs with their origins (host in lower case, default port
  dropped). Among the strings it maps to \<open>None\<close> the examples use \<^verbatim>\<open>''\<close> and
  \<^verbatim>\<open>'not-a-valid-url'\<close>, on which \<^verbatim>\<open>new URL\<close> throws.
\<close>

definition sampleURL :: "string \<Rightarrow> URL option" where
  "sampleURL s =
     (if s = ''https://example.com/some/page'' then Some \<lparr>origin = ''https://example.com''\<rparr>
      else if s = ''https://evil.example.com/page'' then Some \<lparr>origin = ''https://evil.example.com''\<rparr>
      else if s = ''https://EXAMPLE.COM:443/docs'' then Some \<lparr>origin = ''https://example.com''\<rparr>
      else None)"

section \<open>The rate limiter (src/middleware/rateLimit.ts)\<close>

subsection \<open>Data\<close>

text \<open>
  \<^verbatim>\<open>interface RateLimitEntry { count: number; resetTime: number }\<close>.
  The count starts at 0 and is only ever incremented, so it is a natural number;
  \<open>resetTime\<close> is an absolute instant in milliseconds.
\<close>

record RateLimitEntry =
  count :: nat
  resetTime :: int

text \<open>
  \<^verbatim>\<open>const rateLimitStore = new Map<string, RateLimitEntry>()\<close>: a JavaScript Map keeps its
  entries in insertion order; \<open>get\<close> is \<^const>\<open>map_of\<close>, \<open>set\<close> is \<^const>\<open>AList.update\<close>
  (overwrite in place, or append) and \<open>delete\<close> is \<^const>\<open>AList.delete\<close>.
\<close>

type_synonym rateLimitStore = "(string \<times> RateLimitEntry) list"

datatype TrustedProxyHeader = CfConnectingIp | XRealIp | XForwardedFor

record RateLimitConfig =
  maxRequests :: int
  windowSeconds :: int
  trustedProxyHeader :: "TrustedProxyHeader option"

record RateLimitResult =
  allowed :: bool
  limit :: int
  remaining :: int
  resetTime :: int

subsection \<open>The periodic sweep\<close>

text \<open>
  The callback of \<^verbatim>\<open>setInterval\<close> (lines 17-24), run with \<open>now = Date.now()\<close>: it walks the
  entries and deletes every key whose entry has \<open>now > entry.resetTime\<close>.
\<close>

definition cleanup :: "nat \<Rightarrow> rateLimitStore \<Rightarrow> rateLimitStore" where
  "cleanup now store =
     fold (\<lambda>(key, entry) s.
             if int now > RateLimitEntry.resetTime entry then AList.delete key s else s)
          store store"

subsection \<open>isValidIpAddress\<close>

text \<open>\<^verbatim>\<open>(?:25[0-5]|2[0-4][0-9]|[01]?[0-9][0-9]?)\<close>\<close>

definition octetRx :: regex where
  "octetRx =
     RAlt (RSeq (lit ''25'') (RRange CHR ''0'' CHR ''5''))
    (RAlt (RSeq (RChar CHR ''2'') (RSeq (RRange CHR ''0'' CHR ''4'') digitRx))
          (RSeq (ROpt (RAlt (RChar CHR ''0'') (RChar CHR ''1''))) (RSeq digitRx (ROpt digitRx))))"

text \<open>\<^verbatim>\<open>/^(?:(?:octet)\.){3}(?:octet)$/\<close>\<close>

definition ipv4Regex :: regex where
  "ipv4Regex = RSeq (RRep 3 3 (RSeq octetRx (RChar CHR ''.''))) octetRx"

text \<open>\<^verbatim>\<open>[a-fA-F0-9]{1,4}\<close>, then that group followed by a colon, and preceded by one.\<close>

definition hex4Rx :: regex where
  "hex4Rx =
     RRep 1 4 (RAlt (RRange CHR ''a'' CHR ''f'') (RAlt (RRange CHR ''A'' CHR ''F'') digitRx))"

definition hexColonRx :: regex where
  "hexColonRx = RSeq hex4Rx (RChar CHR '':'')"

definition colonHexRx :: regex where
  "colonHexRx = RSeq (RChar CHR '':'') hex4Rx"

text \<open>The nine anchored alternatives of \<^verbatim>\<open>ipv6Regex\<close>, in the order of the source.\<close>

definition ipv6Regex :: regex where
  "ipv6Regex =
     RAlt (RSeq (RRep 7 7 hexColonRx) hex4Rx)
    (RAlt (RSeq (lit ''::'') (RSeq (RRep 0 6 hexColonRx) hex4Rx))
    (RAlt (RSeq (RRep 1 7 hexColonRx) (RChar CHR '':''))
    (RAlt (RSeq (RRep 1 6 hexColonRx) colonHexRx)
    (RAlt (RSeq (RRep 1 5 hexColonRx) (RRep 1 2 colonHexRx))
    (RAlt (RSeq (RRep 1 4 hexColonRx) (RRep 1 3 colonHexRx))
    (RAlt (RSeq (RRep 1 3 hexColonRx) (RRep 1 4 colonHexRx))
    (RAlt (RSeq (RRep 1 2 hexColonRx) (RRep 1 5 colonHexRx))
          (RSeq hexColonRx (RRep 1 6 colonHexRx)))))))))"

definition isValidIpAddress :: "string \<Rightarrow> bool" where
  "isValidIpAddress ip = (regex_test ipv4Regex ip \<or> regex_test ipv6Regex ip)"

subsection \<open>getClientId\<close>

text \<open>
  The fallback of line 114, \<^verbatim>\<open>`unknown-${Date.now()}-${Math.random().toString(36).slice(2)}`\<close>:
  \<open>now\<close> is the clock reading and \<open>random\<close> the string that
  \<^verbatim>\<open>Math.random().toString(36).slice(2)\<close> produced.
\<close>

definition fallbackId :: "nat \<Rightarrow> string \<Rightarrow> string" where
  "fallbackId now random = ''unknown-'' @ string_of_nat now @ ''-'' @ random"

definition getClientId :: "Request \<Rightarrow> TrustedProxyHeader option \<Rightarrow> nat \<Rightarrow> string \<Rightarrow> string" where
  "getClientId request trustedHeader now random =
     (case trustedHeader of
        None \<Rightarrow> fallbackId now random
      | Some header \<Rightarrow>
          (let proxyIp =
                 (case header of
                    CfConnectingIp \<Rightarrow> headers_get request ''cf-connecting-ip''
                  | XRealIp \<Rightarrow> headers_get request ''x-real-ip''
                  | XForwardedFor \<Rightarrow>
                      (case headers_get request ''x-forwarded-for'' of
                         None \<Rightarrow> None
                       | Some v \<Rightarrow>
                           (case split CHR '','' v of
                              [] \<Rightarrow> None
                            | first # _ \<Rightarrow> Some (trim first))))
           in case proxyIp of
                None \<Rightarrow> fallbackId now random
              | Some ip \<Rightarrow>
                  if ip \<noteq> [] \<and> isValidIpAddress ip then ip else fallbackId now random))"

subsection \<open>The window algorithm\<close>

text \<open>
  Lines 128-153 of \<^verbatim>\<open>checkRateLimit\<close>, for the client id that \<^verbatim>\<open>getClientId\<close> returned and
  the reading \<open>now\<close> of \<^verbatim>\<open>Date.now()\<close>. The entry object is shared with the Map, so
  \<^verbatim>\<open>entry.count++\<close> is a write to the store.
\<close>

definition checkRateLimitFor ::
  "string \<Rightarrow> nat \<Rightarrow> RateLimitConfig \<Rightarrow> rateLimitStore \<Rightarrow> RateLimitResult \<times> rateLimitStore" where
  "checkRateLimitFor clientId now config store =
     (let windowMs = windowSeconds config * 1000;
          fresh = \<lparr>count = 0, resetTime = int now + windowMs\<rparr>;
          (entry0, store1) =
            (case map_of store clientId of
               None \<Rightarrow> (fresh, AList.update clientId fresh store)
             | Some e \<Rightarrow>
                 if int now > RateLimitEntry.resetTime e
                 then (fresh, AList.update clientId fresh store)
                 else (e, store));
          entry = entry0\<lparr>count := count entry0 + 1\<rparr>;
          store2 = AList.update clientId entry store1;
          allowed = (int (count entry) \<le> maxRequests config);
          remaining = max 0 (maxRequests config - int (count entry))
      in (\<lparr>allowed = allowed, limit = maxRequests config, remaining = remaining,
           resetTime = RateLimitEntry.resetTime entry\<rparr>, store2))"

text \<open>
  What one call of \<^verbatim>\<open>checkRateLimit\<close> reads from outside: the clock and the random string
  of the fallback id, and the clock of line 128.
\<close>

record Readings =
  idNow :: nat
  idRandom :: string
  checkNow :: nat

definition defaultConfig :: RateLimitConfig where
  "defaultConfig = \<lparr>maxRequests = 10, windowSeconds = 60, trustedProxyHeader = None\<rparr>"

definition checkRateLimit ::
  "Request \<Rightarrow> RateLimitConfig option \<Rightarrow> Readings \<Rightarrow> rateLimitStore
     \<Rightarrow> RateLimitResult \<times> rateLimitStore" where
  "checkRateLimit request configArg rd store =
     (let config = (case configArg of None \<Rightarrow> defaultConfig | Some c \<Rightarrow> c);
          clientId = getClientId request (trustedProxyHeader config) (idNow rd) (idRandom rd)
      in checkRateLimitFor clientId (checkNow rd) config store)"

definition createRateLimitHeaders :: "RateLimitResult \<Rightarrow> (string \<times> string) list" where
  "createRateLimitHeaders result =
     [(''X-RateLimit-Limit'', string_of_int (limit result)),
      (''X-RateLimit-Remaining'', string_of_int (remaining result)),
      (''X-RateLimit-Reset'', string_of_int (resetTime result div 1000))]"

text \<open>The store is touched by two kinds of events only: a check and a sweep.\<close>

datatype event = Check string nat RateLimitConfig | Sweep nat

fun eventTime :: "event \<Rightarrow> nat" where
  "eventTime (Check clientId now config) = now"
| "eventTime (Sweep now) = now"

fun step :: "event \<Rightarrow> rateLimitStore \<Rightarrow> rateLimitStore" where
  "step (Check clientId now config) store = snd (checkRateLimitFor clientId now config store)"
| "step (Sweep now) store = cleanup now store"

text \<open>The store after a history of events, starting from the empty Map of process start.\<close>

definition run :: "event list \<Rightarrow> rateLimitStore" where
  "run evs = fold step evs []"


section \<open>Environment configuration (src/lib/env.ts)\<close>

text \<open>
  \<^verbatim>\<open>getEnv\<close> reads \<^verbatim>\<open>import.meta.env\<close> first, then \<^verbatim>\<open>process.env\<close>; either object may be
  missing (\<open>None\<close>), and an empty value counts as unset.
\<close>

record EnvSources =
  metaEnv :: "(string \<times> string) list option"
  processEnv :: "(string \<times> string) list option"

definition getEnv :: "EnvSources \<Rightarrow> string \<Rightarrow> string option \<Rightarrow> string option" where
  "getEnv src key defaultValue =
     (let metaEnvValue = (case metaEnv src of None \<Rightarrow> None | Some m \<Rightarrow> map_of m key);
          processEnvValue = (case processEnv src of None \<Rightarrow> None | Some m \<Rightarrow> map_of m key)
      in if metaEnvValue \<noteq> None \<and> metaEnvValue \<noteq> Some []
         then metaEnvValue
         else if processEnvValue \<noteq> None \<and> processEnvValue \<noteq> Some []
         then processEnvValue
         else defaultValue)"

definition nodeEnv :: "EnvSources \<Rightarrow> string" where
  "nodeEnv src =
     (case getEnv src ''NODE_ENV'' (Some ''development'') of
        Some v \<Rightarrow> v
      | None \<Rightarrow> ''development'')"

definition env_isDevelopment :: "EnvSources \<Rightarrow> bool" where
  "env_isDevelopment src = (nodeEnv src = ''development'')"

definition env_isTest :: "EnvSources \<Rightarrow> bool" where
  "env_isTest src = (nodeEnv src = ''test'')"

section \<open>The search endpoint (src/pages/api/search.json.ts)\<close>

subsection \<open>validateOrigin\<close>

record ValidateOriginEnv =
  isDevelopment :: bool
  isTest :: bool

text \<open>
  Line 46, \<^verbatim>\<open>origin || (referer ? new URL(referer).origin : null)\<close>: an empty string is
  falsy, so an empty \<^verbatim>\<open>Origin\<close> falls through to the \<^verbatim>\<open>Referer\<close>, and an empty \<^verbatim>\<open>Referer\<close> is
  not parsed. The result is \<open>None\<close> for \<^verbatim>\<open>null\<close>.
\<close>

definition requestOriginOf ::
  "(string \<Rightarrow> URL option) \<Rightarrow> string option \<Rightarrow> string option \<Rightarrow> error + string option" where
  "requestOriginOf newURL originHeader referer =
     (case originHeader of
        Some (c # cs) \<Rightarrow> Inr (Some (c # cs))
      | _ \<Rightarrow>
          (case referer of
             Some (c # cs) \<Rightarrow>
               (case newURL (c # cs) of
                  None \<Rightarrow> Inl TypeError
                | Some u \<Rightarrow> Inr (Some (origin u)))
           | _ \<Rightarrow> Inr None))"

text \<open>
  \<^verbatim>\<open>/^https?:\/\/localhost(:\d+)?$/\<close>, \<^verbatim>\<open>/^https?:\/\/127\.0\.0\.1(:\d+)?$/\<close> and
  \<^verbatim>\<open>/^https?:\/\/\[::1\](:\d+)?$/\<close>.
\<close>

definition localhostPattern :: "string \<Rightarrow> regex" where
  "localhostPattern host =
     RSeq (lit ''http'')
    (RSeq (ROpt (RChar CHR ''s''))
    (RSeq (lit ''://'')
    (RSeq (lit host)
          (ROpt (RSeq (RChar CHR '':'') (RPlus digitRx))))))"

definition localhostPatterns :: "regex list" where
  "localhostPatterns =
     [localhostPattern ''localhost'', localhostPattern ''127.0.0.1'', localhostPattern ''[::1]'']"

definition validateOrigin ::
  "(string \<Rightarrow> URL option) \<Rightarrow> EnvSources \<Rightarrow> Request \<Rightarrow> URL option
     \<Rightarrow> ValidateOriginEnv option \<Rightarrow> error + bool" where
  "validateOrigin newURL env request siteUrl envOverride =
     (let currentEnv =
            (case envOverride of
               Some e \<Rightarrow> e
             | None \<Rightarrow> \<lparr>isDevelopment = env_isDevelopment env, isTest = env_isTest env\<rparr>);
          originHeader = headers_get request ''origin'';
          referer = headers_get request ''referer''
      in case requestOriginOf newURL originHeader referer of
           Inl e \<Rightarrow> Inl e
         | Inr requestOrigin \<Rightarrow>
             (case requestOrigin of
                Some (c # cs) \<Rightarrow>
                  if (case siteUrl of None \<Rightarrow> False | Some site \<Rightarrow> c # cs = origin site)
                  then Inr True
                  else if isDevelopment currentEnv \<or> isTest currentEnv
                  then Inr (list_ex (\<lambda>pattern. regex_test pattern (c # cs)) localhostPatterns)
                  else Inr False
              | _ \<Rightarrow>
                  if isDevelopment currentEnv \<or> isTest currentEnv then Inr True else Inr False))"

subsection \<open>Responses\<close>

record Response =
  status :: nat
  headers :: "(string \<times> string) list"
  body :: json

text \<open>The last value is \<^verbatim>\<open>default-src 'none'; frame-ancestors 'none'\<close>; \<open>CHR 0x27\<close> is the quote.\<close>

definition securityHeaders :: "(string \<times> string) list" where
  "securityHeaders =
     [(''X-Content-Type-Options'', ''nosniff''),
      (''X-Frame-Options'', ''DENY''),
      (''X-XSS-Protection'', ''1; mode=block''),
      (''Content-Security-Policy'',
       ''default-src '' @ [CHR 0x27] @ ''none'' @ [CHR 0x27] @ ''; frame-ancestors ''
         @ [CHR 0x27] @ ''none'' @ [CHR 0x27])]"

definition errorBody :: "string \<Rightarrow> string \<Rightarrow> json" where
  "errorBody err message =
     JObj [(ustr ''error'', JStr (ustr err)), (ustr ''message'', JStr (ustr message))]"

subsection \<open>The result limit\<close>

text \<open>
  The white space that \<^verbatim>\<open>parseInt\<close> skips (\<^verbatim>\<open>StrWhiteSpaceChar\<close>), as UTF-16 code units.
\<close>

definition isStrWhiteSpaceChar :: "nat \<Rightarrow> bool" where
  "isStrWhiteSpaceChar c =
     (c \<in> {9, 10, 11, 12, 13, 32, 160, 5760, 8232, 8233, 8239, 8287, 12288, 65279}
      \<or> (8192 \<le> c \<and> c \<le> 8202))"

definition isDecimalDigit :: "nat \<Rightarrow> bool" where
  "isDecimalDigit c = (48 \<le> c \<and> c \<le> 57)"

text \<open>
  The Number value of an integer: the doubles end below \<open>2 ^ 1024\<close>, and an integer from
  \<open>2 ^ 1024 - 2 ^ 970\<close> on rounds to an infinity. A finite result stands for the double
  nearest to \<open>v\<close>, which is \<open>v\<close> itself up to \<open>2 ^ 53\<close>; the handler only takes its minimum
  with 20 and its maximum with 1, where rounding makes no difference. (ECMAScript lets
  \<^verbatim>\<open>parseInt\<close> read the digits after the twentieth as zeros, which can move an integer
  only next to the bound.)
\<close>

definition numberOfInt :: "int \<Rightarrow> jsnum" where
  "numberOfInt v =
     (if 2 ^ 1024 - 2 ^ 970 \<le> v then PosInfinity
      else if v \<le> - (2 ^ 1024 - 2 ^ 970) then NegInfinity
      else Finite (of_int v))"

text \<open>
  \<^verbatim>\<open>Number.parseInt(s, 10)\<close>: skip leading white space, read an optional sign, take the
  longest run of decimal digits; \<^verbatim>\<open>NaN\<close> when that run is empty.
\<close>

definition parseInt10 :: "ustring \<Rightarrow> jsnum" where
  "parseInt10 inputString =
     (let S = dropWhile isStrWhiteSpaceChar inputString;
          sign = (case S of [] \<Rightarrow> 1 | c # _ \<Rightarrow> if c = 45 then - 1 else (1 :: int));
          S' = (case S of [] \<Rightarrow> S | c # cs \<Rightarrow> if c = 43 \<or> c = 45 then cs else S);
          Z = takeWhile isDecimalDigit S'
      in if Z = [] then NaN
         else numberOfInt (sign * foldl (\<lambda>acc d. 10 * acc + int (d - 48)) 0 Z))"

text \<open>
  Lines 179-188 of the handler (lines 84-93 of the other copy of the file, which are the
  same text): \<open>limitProp\<close> is the \<^verbatim>\<open>limit\<close> property of the body, \<open>None\<close> when the body has
  none, in which case the destructuring default 10 applies.
\<close>

definition sanitizedLimit :: "json option \<Rightarrow> rat" where
  "sanitizedLimit limitProp =
     (let limit = (case limitProp of None \<Rightarrow> JNum (Finite 10) | Some v \<Rightarrow> v);
          numericLimit =
            (case limit of
               JNum x \<Rightarrow> (case x of Finite q \<Rightarrow> of_int \<lfloor>q\<rfloor> | _ \<Rightarrow> 10)
             | JStr s \<Rightarrow> (case parseInt10 s of Finite parsed \<Rightarrow> parsed | _ \<Rightarrow> 10)
             | _ \<Rightarrow> 10)
      in min (max 1 numericLimit) 20)"

subsection \<open>POST\<close>

text \<open>
  A property read off the parsed body. \<^verbatim>\<open>JSON.parse\<close> keeps the last of several equal
  keys; a body that is not an object has neither property, and destructuring \<^verbatim>\<open>null\<close>
  throws.
\<close>

definition property :: "json \<Rightarrow> string \<Rightarrow> error + json option" where
  "property b key =
     (case b of
        JNull \<Rightarrow> Inl TypeError
      | JObj kvs \<Rightarrow> Inr (map_of (rev kvs) (ustr key))
      | _ \<Rightarrow> Inr None)"

text \<open>
  The clock readings of the 429 branch: one for the body, one for the \<^verbatim>\<open>Retry-After\<close>
  header.
\<close>

record RetryReadings =
  bodyNow :: nat
  headerNow :: nat

definition retryAfter :: "int \<Rightarrow> nat \<Rightarrow> int" where
  "retryAfter reset now = \<lceil>(of_int (reset - int now) :: rat) / 1000\<rceil>"

definition queryRequired :: json where
  "queryRequired = JObj [(ustr ''error'', JStr (ustr ''Query parameter is required''))]"

text \<open>
  The 429 response (lines 124-141 of src/unnamed/part\_012, lines 29-46 of
  src/pages/api/search.json.ts): the body is built first, then the headers.
\<close>

definition tooManyRequests ::
  "(string \<times> string) list \<Rightarrow> RateLimitResult \<Rightarrow> RetryReadings \<Rightarrow> Response" where
  "tooManyRequests rateLimitHeaders rateLimitResult rr =
     \<lparr>status = 429,
      headers = rateLimitHeaders
        @ [(''Retry-After'',
            string_of_int (retryAfter (resetTime rateLimitResult) (headerNow rr)))],
      body = JObj [(ustr ''error'', JStr (ustr ''Too many requests'')),
                   (ustr ''message'', JStr (ustr ''Rate limit exceeded. Please try again later.'')),
                   (ustr ''retryAfter'',
                    JNum (Finite (of_int (retryAfter (resetTime rateLimitResult) (bodyNow rr)))))]\<rparr>"

text \<open>
  The rest of the handler once the request is within its limit (lines 143-228 of
  src/unnamed/part\_012; lines 48-133 of src/pages/api/search.json.ts are the same text but
  for the embedding provider handed to the search). \<open>search q n\<close> stands for
  \<^verbatim>\<open>getTursoClient()\<close> followed by the external \<^verbatim>\<open>search\<close> call with query \<open>q\<close> and limit \<open>n\<close>,
  \<open>None\<close> when either throws; the logging in the \<^verbatim>\<open>catch\<close> block is not modelled.
\<close>

definition searchResponse ::
  "(ustring \<Rightarrow> rat \<Rightarrow> json list option) \<Rightarrow> (string \<times> string) list \<Rightarrow> json option
     \<Rightarrow> Response" where
  "searchResponse search rateLimitHeaders parsedBody =
     (case parsedBody of
        None \<Rightarrow>
          \<lparr>status = 400, headers = rateLimitHeaders,
           body = errorBody ''Invalid JSON'' ''Request body must be valid JSON.''\<rparr>
      | Some b \<Rightarrow>
          (case (property b ''query'', property b ''limit'') of
             (Inr query, Inr limitProp) \<Rightarrow>
               (case query of
                  Some (JStr q) \<Rightarrow>
                    if q = []
                    then \<lparr>status = 400, headers = rateLimitHeaders, body = queryRequired\<rparr>
                    else if length q > 500
                    then \<lparr>status = 400, headers = rateLimitHeaders,
                          body = errorBody ''Query too long''
                            ''Query must be less than 500 characters''\<rparr>
                    else
                      (case search q (sanitizedLimit limitProp) of
                         None \<Rightarrow>
                           \<lparr>status = 500, headers = rateLimitHeaders,
                            body = errorBody ''Search failed''
                              ''An error occurred while processing your search request.''\<rparr>
                       | Some results \<Rightarrow>
                           \<lparr>status = 200, headers = rateLimitHeaders,
                            body = JObj [(ustr ''results'', JArr results),
                                         (ustr ''count'', JNum (Finite (of_nat (length results)))),
                                         (ustr ''query'', JStr q)]\<rparr>)
                | _ \<Rightarrow> \<lparr>status = 400, headers = rateLimitHeaders, body = queryRequired\<rparr>)
           | _ \<Rightarrow>
               \<lparr>status = 500, headers = rateLimitHeaders,
                body = errorBody ''Search failed''
                  ''An error occurred while processing your search request.''\<rparr>))"

text \<open>
  The handler of src/unnamed/part\_012. An exception of \<^verbatim>\<open>validateOrigin\<close> is outside every
  \<^verbatim>\<open>try\<close> and leaves the handler.
\<close>

definition POST ::
  "(string \<Rightarrow> URL option) \<Rightarrow> EnvSources \<Rightarrow> (ustring \<Rightarrow> rat \<Rightarrow> json list option)
     \<Rightarrow> Request \<Rightarrow> URL option \<Rightarrow> Readings \<Rightarrow> RetryReadings \<Rightarrow> rateLimitStore
     \<Rightarrow> error + Response \<times> rateLimitStore" where
  "POST newURL env search request site rd rr store =
     (case validateOrigin newURL env request site None of
        Inl e \<Rightarrow> Inl e
      | Inr False \<Rightarrow>
          Inr (\<lparr>status = 403,
                headers = (''Content-Type'', ''application/json'') # securityHeaders,
                body = errorBody ''Forbidden'' ''Invalid request origin''\<rparr>, store)
      | Inr True \<Rightarrow>
          (let (rateLimitResult, store') =
                 checkRateLimit request
                   (Some \<lparr>maxRequests = 20, windowSeconds = 60,
                           trustedProxyHeader = Some XForwardedFor\<rparr>) rd store;
               rateLimitHeaders =
                 (''Content-Type'', ''application/json'') # securityHeaders
                   @ createRateLimitHeaders rateLimitResult
           in if \<not> allowed rateLimitResult
              then Inr (tooManyRequests rateLimitHeaders rateLimitResult rr, store')
              else Inr (searchResponse search rateLimitHeaders (jsonBody request), store')))"

text \<open>
  The handler of src/pages/api/search.json.ts. It passes \<^verbatim>\<open>trustProxy: true\<close> to
  \<^verbatim>\<open>checkRateLimit\<close>, an option of the copy of the rate limiter in src/unnamed/part\_007 that
  the one in src/middleware/rateLimit.ts does not read, so \<open>rateLimitResult\<close>, what that call
  returned, is an argument here.
\<close>

definition POST_search_json ::
  "RateLimitResult \<Rightarrow> (ustring \<Rightarrow> rat \<Rightarrow> json list option) \<Rightarrow> Request \<Rightarrow> RetryReadings
     \<Rightarrow> Response" where
  "POST_search_json rateLimitResult search request rr =
     (let rateLimitHeaders =
            (''Content-Type'', ''application/json'') # createRateLimitHeaders rateLimitResult
      in if \<not> allowed rateLimitResult
         then tooManyRequests rateLimitHeaders rateLimitResult rr
         else searchResponse search rateLimitHeaders (jsonBody request))"

subsection \<open>GET\<close>




section \<open>Properties of the rate limiter\<close>

lemma checkRateLimitFor_entry:
  "map_of (snd (checkRateLimitFor cid now cfg store)) cid =
     Some (case map_of store cid of
             None \<Rightarrow> \<lparr>count = 1, resetTime = int now + windowSeconds cfg * 1000\<rparr>
           | Some e \<Rightarrow>
               if int now > RateLimitEntry.resetTime e
               then \<lparr>count = 1, resetTime = int now + windowSeconds cfg * 1000\<rparr>
               else e\<lparr>count := count e + 1\<rparr>)"
  by (simp add: checkRateLimitFor_def Let_def update_conv' split: option.splits)

lemma checkRateLimitFor_result:
  "fst (checkRateLimitFor cid now cfg store) =
     (let e' = (case map_of store cid of
                  None \<Rightarrow> \<lparr>count = 1, resetTime = int now + windowSeconds cfg * 1000\<rparr>
                | Some e \<Rightarrow>
                    if int now > RateLimitEntry.resetTime e
                    then \<lparr>count = 1, resetTime = int now + windowSeconds cfg * 1000\<rparr>
                    else e\<lparr>count := count e + 1\<rparr>)
      in \<lparr>allowed = (int (count e') \<le> maxRequests cfg), limit = maxRequests cfg,
          remaining = max 0 (maxRequests cfg - int (count e')),
          resetTime = RateLimitEntry.resetTime e'\<rparr>)"
  by (simp add: checkRateLimitFor_def Let_def split: option.splits)

lemma checkRateLimitFor_other:
  "k \<noteq> cid \<Longrightarrow> map_of (snd (checkRateLimitFor cid now cfg store)) k = map_of store k"
  by (simp add: checkRateLimitFor_def Let_def update_conv' split: option.splits)

lemma checkRateLimitFor_distinct:
  "distinct (map fst store) \<Longrightarrow> distinct (map fst (snd (checkRateLimitFor cid now cfg store)))"
  by (simp add: checkRateLimitFor_def Let_def distinct_update split: option.splits)

lemma check_fresh:
  "(case map_of s cid of None \<Rightarrow> True | Some e \<Rightarrow> int t > RateLimitEntry.resetTime e)
   \<Longrightarrow> checkRateLimitFor cid t cfg s =
        (\<lparr>allowed = (1 \<le> maxRequests cfg), limit = maxRequests cfg,
          remaining = max 0 (maxRequests cfg - 1),
          resetTime = int t + windowSeconds cfg * 1000\<rparr>,
         AList.update cid \<lparr>count = 1, resetTime = int t + windowSeconds cfg * 1000\<rparr> s)"
  by (auto simp add: checkRateLimitFor_def Let_def split: option.splits)

lemma check_live:
  "map_of s cid = Some e \<Longrightarrow> int t \<le> RateLimitEntry.resetTime e
   \<Longrightarrow> checkRateLimitFor cid t cfg s =
        (\<lparr>allowed = (int (count e) + 1 \<le> maxRequests cfg), limit = maxRequests cfg,
          remaining = max 0 (maxRequests cfg - (int (count e) + 1)),
          resetTime = RateLimitEntry.resetTime e\<rparr>,
         AList.update cid (e\<lparr>count := count e + 1\<rparr>) s)"
  by (simp add: checkRateLimitFor_def Let_def add.commute)

text \<open>
  Claim C2. When \<open>checkRateLimit\<close> finds no entry for the client id, or an entry whose
  \<open>resetTime\<close> has passed, it starts from a fresh entry (count 0, resetTime = now +
  windowSeconds * 1000) and increments it; otherwise it increments the stored entry. The
  result is allowed iff the incremented count is at most \<open>maxRequests\<close>, and remaining is
  \<open>max 0 (maxRequests - count)\<close>. With maxRequests = 3 and windowSeconds = 60, four calls
  of one client inside the window give allowed/remaining = true/2, true/1, true/0, false/0,
  and the fourth call is counted (the stored count is 4).
\<close>

theorem C2_fixed_window:
  "(let (res, store') = checkRateLimitFor cid now cfg store;
        e' = (case map_of store cid of
                None \<Rightarrow> \<lparr>count = 1, resetTime = int now + windowSeconds cfg * 1000\<rparr>
              | Some e \<Rightarrow>
                  if int now > RateLimitEntry.resetTime e
                  then \<lparr>count = 1, resetTime = int now + windowSeconds cfg * 1000\<rparr>
                  else e\<lparr>count := count e + 1\<rparr>)
    in map_of store' cid = Some e'
     \<and> allowed res = (int (count e') \<le> maxRequests cfg)
     \<and> remaining res = max 0 (maxRequests cfg - int (count e'))
     \<and> limit res = maxRequests cfg
     \<and> resetTime res = RateLimitEntry.resetTime e')
   \<and> (maxRequests cfg = 3 \<and> windowSeconds cfg = 60
      \<and> (case map_of store cid of None \<Rightarrow> True | Some e \<Rightarrow> int t1 > RateLimitEntry.resetTime e)
      \<and> t2 \<le> t1 + 60000 \<and> t3 \<le> t1 + 60000 \<and> t4 \<le> t1 + 60000 \<longrightarrow>
       (let (r1, s1) = checkRateLimitFor cid t1 cfg store;
            (r2, s2) = checkRateLimitFor cid t2 cfg s1;
            (r3, s3) = checkRateLimitFor cid t3 cfg s2;
            (r4, s4) = checkRateLimitFor cid t4 cfg s3
        in allowed r1 \<and> remaining r1 = 2
         \<and> allowed r2 \<and> remaining r2 = 1
         \<and> allowed r3 \<and> remaining r3 = 0
         \<and> \<not> allowed r4 \<and> remaining r4 = 0
         \<and> map_of s4 cid = Some \<lparr>count = 4, resetTime = int t1 + 60000\<rparr>))"
  (is "?general \<and> (?pre \<longrightarrow> ?four)")
proof (intro conjI impI)
  show ?general
    by (simp add: case_prod_beta Let_def checkRateLimitFor_entry checkRateLimitFor_result)
next
  assume pre: ?pre
  have n2: "(2::nat) = Suc (Suc 0)" and n3: "(3::nat) = Suc (Suc (Suc 0))"
    and n4: "(4::nat) = Suc (Suc (Suc (Suc 0)))" by simp_all
  let ?R = "int t1 + 60000"
  let ?s1 = "AList.update cid \<lparr>count = 1, resetTime = ?R\<rparr> store"
  let ?s2 = "AList.update cid \<lparr>count = 2, resetTime = ?R\<rparr> ?s1"
  let ?s3 = "AList.update cid \<lparr>count = 3, resetTime = ?R\<rparr> ?s2"
  have c1: "checkRateLimitFor cid t1 cfg store =
      (\<lparr>allowed = True, limit = 3, remaining = 2, resetTime = ?R\<rparr>, ?s1)"
    using pre check_fresh [where s=store and cid=cid and t=t1 and cfg=cfg] by simp
  have c2: "checkRateLimitFor cid t2 cfg ?s1 =
      (\<lparr>allowed = True, limit = 3, remaining = 1, resetTime = ?R\<rparr>, ?s2)"
    using pre check_live [where s="?s1" and cid=cid and e="\<lparr>count = 1, resetTime = ?R\<rparr>" and t=t2 and cfg=cfg]
    by (simp add: update_conv' n2 n3 n4)
  have c3: "checkRateLimitFor cid t3 cfg ?s2 =
      (\<lparr>allowed = True, limit = 3, remaining = 0, resetTime = ?R\<rparr>, ?s3)"
    using pre check_live [where s="?s2" and cid=cid and e="\<lparr>count = 2, resetTime = ?R\<rparr>" and t=t3 and cfg=cfg]
    by (simp add: update_conv' n2 n3 n4)
  have c4: "checkRateLimitFor cid t4 cfg ?s3 =
      (\<lparr>allowed = False, limit = 3, remaining = 0, resetTime = ?R\<rparr>,
       AList.update cid \<lparr>count = 4, resetTime = ?R\<rparr> ?s3)"
    using pre check_live [where s="?s3" and cid=cid and e="\<lparr>count = 3, resetTime = ?R\<rparr>" and t=t4 and cfg=cfg]
    by (simp add: update_conv' n2 n3 n4)
  show ?four
    unfolding Let_def c1 c2 c3 c4 prod.case
    by (simp add: update_conv')
qed


theorem C2_fixed_window_witness:
  "allowed (fst (checkRateLimitFor ''10.20.30.40'' 1000
       \<lparr>maxRequests = 3, windowSeconds = 60, trustedProxyHeader = Some XForwardedFor\<rparr> []))
   \<and> (let cfg = \<lparr>maxRequests = 3, windowSeconds = 60, trustedProxyHeader = Some XForwardedFor\<rparr>;
            (r1, s1) = checkRateLimitFor ''10.20.30.40'' 1000 cfg [];
            (r2, s2) = checkRateLimitFor ''10.20.30.40'' 1001 cfg s1;
            (r3, s3) = checkRateLimitFor ''10.20.30.40'' 1002 cfg s2;
            (r4, s4) = checkRateLimitFor ''10.20.30.40'' 61000 cfg s3
        in map (\<lambda>r. (allowed r, remaining r)) [r1, r2, r3, r4]
             = [(True, 2), (True, 1), (True, 0), (False, 0)]
         \<and> map_of s4 ''10.20.30.40'' = Some \<lparr>count = 4, resetTime = 61000\<rparr>)"
  using C2_fixed_window [where cid = "''10.20.30.40''" and now = 1000 and store = "[]"
      and cfg = "\<lparr>maxRequests = 3, windowSeconds = 60, trustedProxyHeader = Some XForwardedFor\<rparr>"
      and ?t1.0 = 1000 and ?t2.0 = 1001 and ?t3.0 = 1002 and ?t4.0 = 61000]
  by (simp add: Let_def case_prod_beta)

text \<open>
  Claim C6. With \<open>maxRequests \<le> 0\<close> every call is denied, whatever the request, the
  client id, the clock and the store: the count is at least 1 after the increment.
\<close>

theorem C6_nonpositive_limit_denies:
  "maxRequests cfg \<le> 0 \<Longrightarrow>
     \<not> allowed (fst (checkRateLimit request (Some cfg) rd store))
     \<and> remaining (fst (checkRateLimit request (Some cfg) rd store)) = 0
     \<and> \<not> allowed (fst (checkRateLimitFor cid now cfg store))"
  by (simp add: checkRateLimit_def checkRateLimitFor_result Let_def split: option.splits)

theorem C6_nonpositive_limit_denies_witness:
  "maxRequests \<lparr>maxRequests = 0, windowSeconds = 60, trustedProxyHeader = None\<rparr> \<le> 0
   \<and> \<not> allowed (fst (checkRateLimit \<lparr>Request.headers = [], jsonBody = None\<rparr>
          (Some \<lparr>maxRequests = 0, windowSeconds = 60, trustedProxyHeader = None\<rparr>)
          \<lparr>idNow = 1000, idRandom = ''k3j2h1'', checkNow = 1000\<rparr> []))
   \<and> \<not> allowed (fst (checkRateLimitFor ''1.2.3.4'' 5 
          \<lparr>maxRequests = - 2, windowSeconds = 60, trustedProxyHeader = None\<rparr> []))"
  using C6_nonpositive_limit_denies [where cfg = "\<lparr>maxRequests = 0, windowSeconds = 60, trustedProxyHeader = None\<rparr>"
      and request = "\<lparr>Request.headers = [], jsonBody = None\<rparr>"
      and rd = "\<lparr>idNow = 1000, idRandom = ''k3j2h1'', checkNow = 1000\<rparr>" and store = "[]"]
    C6_nonpositive_limit_denies [where cfg = "\<lparr>maxRequests = - 2, windowSeconds = 60, trustedProxyHeader = None\<rparr>"
      and cid = "''1.2.3.4''" and now = 5 and store = "[]"]
  by simp

text \<open>
  Claim C7 as stated fails: with \<open>windowSeconds = 0\<close> the fresh entry has \<open>resetTime = now\<close>,
  and the expiry test is the strict \<open>now > resetTime\<close>, so a second call at the same
  timestamp finds a live entry and counts 2. Here \<open>maxRequests = 1\<close>: the second call is
  denied.
\<close>

theorem C7_same_timestamp_counterexample:
  "\<not> allowed (fst (checkRateLimitFor ''1.2.3.4'' 1000
        \<lparr>maxRequests = 1, windowSeconds = 0, trustedProxyHeader = None\<rparr>
        (snd (checkRateLimitFor ''1.2.3.4'' 1000
           \<lparr>maxRequests = 1, windowSeconds = 0, trustedProxyHeader = None\<rparr> []))))
   \<and> map_of (snd (checkRateLimitFor ''1.2.3.4'' 1000
        \<lparr>maxRequests = 1, windowSeconds = 0, trustedProxyHeader = None\<rparr>
        (snd (checkRateLimitFor ''1.2.3.4'' 1000
           \<lparr>maxRequests = 1, windowSeconds = 0, trustedProxyHeader = None\<rparr> [])))) ''1.2.3.4''
       = Some \<lparr>count = 2, resetTime = 1000\<rparr>"
  by (simp add: checkRateLimitFor_def Let_def)

text \<open>
  Claim C7, amended. With \<open>windowSeconds = 0\<close> a call starts a new window (count 1, allowed
  iff \<open>maxRequests \<ge> 1\<close>, remaining \<open>max 0 (maxRequests - 1)\<close>, resetTime = now) whenever the
  client has no entry or the clock is strictly past the entry's \<open>resetTime\<close>; so after a
  call that started a window at \<open>t1\<close>, every call at a strictly later \<open>t2\<close> starts a new one.
\<close>

theorem C7_zero_window:
  "windowSeconds cfg = 0 \<Longrightarrow>
     ((case map_of store cid of None \<Rightarrow> True | Some e \<Rightarrow> int t1 > RateLimitEntry.resetTime e) \<longrightarrow>
        checkRateLimitFor cid t1 cfg store =
          (\<lparr>allowed = (1 \<le> maxRequests cfg), limit = maxRequests cfg,
            remaining = max 0 (maxRequests cfg - 1), resetTime = int t1\<rparr>,
           AList.update cid \<lparr>count = 1, resetTime = int t1\<rparr> store)
        \<and> (t1 < t2 \<and> windowSeconds cfg' = 0 \<longrightarrow>
             fst (checkRateLimitFor cid t2 cfg' (snd (checkRateLimitFor cid t1 cfg store))) =
               \<lparr>allowed = (1 \<le> maxRequests cfg'), limit = maxRequests cfg',
                remaining = max 0 (maxRequests cfg' - 1), resetTime = int t2\<rparr>
             \<and> map_of (snd (checkRateLimitFor cid t2 cfg'
                   (snd (checkRateLimitFor cid t1 cfg store)))) cid
                 = Some \<lparr>count = 1, resetTime = int t2\<rparr>))"
proof (intro impI conjI)
  assume w: "windowSeconds cfg = 0"
    and f: "case map_of store cid of None \<Rightarrow> True | Some e \<Rightarrow> int t1 > RateLimitEntry.resetTime e"
  show first: "checkRateLimitFor cid t1 cfg store =
          (\<lparr>allowed = (1 \<le> maxRequests cfg), limit = maxRequests cfg,
            remaining = max 0 (maxRequests cfg - 1), resetTime = int t1\<rparr>,
           AList.update cid \<lparr>count = 1, resetTime = int t1\<rparr> store)"
    using check_fresh [OF f, of cfg] w by simp
  assume "t1 < t2 \<and> windowSeconds cfg' = 0"
  then have lt: "t1 < t2" and w': "windowSeconds cfg' = 0" by simp_all
  have f2: "case map_of (AList.update cid \<lparr>count = 1, resetTime = int t1\<rparr> store) cid of
              None \<Rightarrow> True | Some e \<Rightarrow> int t2 > RateLimitEntry.resetTime e"
    using lt by (simp add: update_conv')
  have second: "checkRateLimitFor cid t2 cfg' (AList.update cid \<lparr>count = 1, resetTime = int t1\<rparr> store) =
          (\<lparr>allowed = (1 \<le> maxRequests cfg'), limit = maxRequests cfg',
            remaining = max 0 (maxRequests cfg' - 1), resetTime = int t2\<rparr>,
           AList.update cid \<lparr>count = 1, resetTime = int t2\<rparr>
             (AList.update cid \<lparr>count = 1, resetTime = int t1\<rparr> store))"
    using check_fresh [OF f2, of cfg'] w' by simp
  show "fst (checkRateLimitFor cid t2 cfg' (snd (checkRateLimitFor cid t1 cfg store))) =
               \<lparr>allowed = (1 \<le> maxRequests cfg'), limit = maxRequests cfg',
                remaining = max 0 (maxRequests cfg' - 1), resetTime = int t2\<rparr>"
    unfolding first snd_conv second fst_conv by (rule refl)
  show "map_of (snd (checkRateLimitFor cid t2 cfg'
                   (snd (checkRateLimitFor cid t1 cfg store)))) cid
                 = Some \<lparr>count = 1, resetTime = int t2\<rparr>"
    unfolding first snd_conv second by (simp add: update_conv')
qed

theorem C7_zero_window_witness:
  "windowSeconds \<lparr>maxRequests = 1, windowSeconds = 0, trustedProxyHeader = None\<rparr> = 0
   \<and> (case map_of [] ''1.2.3.4'' of None \<Rightarrow> True
        | Some e \<Rightarrow> int 1000 > RateLimitEntry.resetTime e)
   \<and> (1000 :: nat) < 1001
   \<and> allowed (fst (checkRateLimitFor ''1.2.3.4'' 1000
         \<lparr>maxRequests = 1, windowSeconds = 0, trustedProxyHeader = None\<rparr> []))
   \<and> allowed (fst (checkRateLimitFor ''1.2.3.4'' 1001
         \<lparr>maxRequests = 1, windowSeconds = 0, trustedProxyHeader = None\<rparr>
         (snd (checkRateLimitFor ''1.2.3.4'' 1000
            \<lparr>maxRequests = 1, windowSeconds = 0, trustedProxyHeader = None\<rparr> []))))"
  using C7_zero_window [where cfg = "\<lparr>maxRequests = 1, windowSeconds = 0, trustedProxyHeader = None\<rparr>"
      and cfg' = "\<lparr>maxRequests = 1, windowSeconds = 0, trustedProxyHeader = None\<rparr>"
      and store = "[]" and cid = "''1.2.3.4''" and ?t1.0 = 1000 and ?t2.0 = 1001]
  by (simp add: checkRateLimitFor_def Let_def)

lemma fold_delete_restrict:
  "fold (\<lambda>(key, entry) s. if P entry then AList.delete key s else s) xs s =
     AList.restrict (- fst ` {x \<in> set xs. P (snd x)}) s"
proof (induction xs arbitrary: s)
  case Nil
  show ?case by (simp add: AList.restrict_eq)
next
  case (Cons x xs)
  obtain k e where x: "x = (k, e)" by (cases x)
  show ?case
  proof (cases "P e")
    case True
    have "{y \<in> set (x # xs). P (snd y)} = insert (k, e) {y \<in> set xs. P (snd y)}"
      using True x by auto
    then have "- fst ` {y \<in> set (x # xs). P (snd y)} = (- fst ` {y \<in> set xs. P (snd y)}) - {k}"
      by auto
    then show ?thesis
      using True x Cons.IH [of "AList.delete k s"]
      by (simp add: AList.restrict_eq AList.delete_eq) (rule filter_cong, auto)
  next
    case False
    have "{y \<in> set (x # xs). P (snd y)} = {y \<in> set xs. P (snd y)}"
      using False x by auto
    then show ?thesis
      using False x Cons.IH [of s] by simp
  qed
qed

lemma cleanup_restrict:
  "cleanup now store =
     AList.restrict (- fst ` {x \<in> set store. int now > RateLimitEntry.resetTime (snd x)}) store"
  unfolding cleanup_def by (rule fold_delete_restrict)

lemma cleanup_distinct:
  "distinct (map fst store) \<Longrightarrow> distinct (map fst (cleanup now store))"
  by (simp add: cleanup_restrict distinct_restr)

lemma cleanup_lookup:
  assumes "distinct (map fst store)" and "map_of store k = Some e"
  shows "map_of (cleanup now store) k =
           (if int now > RateLimitEntry.resetTime e then None else Some e)"
proof (cases "int now > RateLimitEntry.resetTime e")
  case True
  have "(k, e) \<in> set store" using assms(2) by (rule map_of_SomeD)
  then have "k \<in> fst ` {x \<in> set store. int now > RateLimitEntry.resetTime (snd x)}"
    using True by force
  then show ?thesis using True by (simp add: cleanup_restrict restr_conv')
next
  case False
  have "k \<notin> fst ` {x \<in> set store. int now > RateLimitEntry.resetTime (snd x)}"
  proof
    assume "k \<in> fst ` {x \<in> set store. int now > RateLimitEntry.resetTime (snd x)}"
    then obtain e' where in': "(k, e') \<in> set store" and ex: "int now > RateLimitEntry.resetTime e'"
      by auto
    from assms(1) in' have "map_of store k = Some e'" by (rule map_of_is_SomeI)
    with assms(2) have "e' = e" by simp
    with ex False show False by simp
  qed
  then show ?thesis using False assms(2) by (simp add: cleanup_restrict restr_conv')
qed

lemma step_distinct:
  "distinct (map fst store) \<Longrightarrow> distinct (map fst (step ev store))"
  by (cases ev) (simp_all add: checkRateLimitFor_distinct cleanup_distinct)

lemma run_snoc: "run (evs @ [ev]) = step ev (run evs)"
  by (simp add: run_def)

lemma run_distinct: "distinct (map fst (run evs))"
proof (induction evs rule: rev_induct)
  case Nil
  show ?case by (simp add: run_def)
next
  case (snoc ev evs)
  then show ?case by (simp add: run_snoc step_distinct)
qed

lemma step_entry:
  assumes d: "distinct (map fst store)" and l: "map_of store k = Some e"
  shows "(\<exists>e'. map_of (step ev store) k = Some e'
             \<and> RateLimitEntry.resetTime e' = RateLimitEntry.resetTime e \<and> count e \<le> count e')
       \<or> (int (eventTime ev) > RateLimitEntry.resetTime e
           \<and> (map_of (step ev store) k = None
              \<or> (\<exists>w. map_of (step ev store) k = Some \<lparr>count = 1, resetTime = w\<rparr>)))"
proof (cases ev)
  case (Check cid now cfg)
  show ?thesis
  proof (cases "k = cid")
    case True
    then show ?thesis using Check l by (simp add: checkRateLimitFor_entry)
  next
    case False
    then show ?thesis using Check l by (simp add: checkRateLimitFor_other)
  qed
next
  case (Sweep now)
  then show ?thesis using cleanup_lookup [OF d l, of now] by simp
qed

text \<open>
  Claim C8. In every store the process can reach (any history of checks and sweeps from
  the empty Map) and after any further event: the keys are pairwise distinct, so a
  client id has at most one entry; and an entry present before the event is afterwards
  either still there with the same \<open>resetTime\<close> and a count that has not decreased, or the
  event's clock was strictly past its \<open>resetTime\<close> and it has been deleted (sweep) or
  replaced by a fresh entry of count 1 (window rollover).
\<close>

theorem C8_store_invariant:
  "distinct (map fst (run evs))
   \<and> distinct (map fst (step ev (run evs)))
   \<and> (\<forall>k e. map_of (run evs) k = Some e \<longrightarrow>
         (\<exists>e'. map_of (step ev (run evs)) k = Some e'
              \<and> RateLimitEntry.resetTime e' = RateLimitEntry.resetTime e \<and> count e \<le> count e')
         \<or> (int (eventTime ev) > RateLimitEntry.resetTime e
             \<and> (map_of (step ev (run evs)) k = None
                \<or> (\<exists>w. map_of (step ev (run evs)) k = Some \<lparr>count = 1, resetTime = w\<rparr>))))"
  using run_distinct [of evs] step_distinct [OF run_distinct, of ev evs]
    step_entry [OF run_distinct, of evs _ _ ev]
  by blast

theorem C8_store_invariant_witness:
  "map_of (run [Check ''1.2.3.4'' 1000
       \<lparr>maxRequests = 3, windowSeconds = 60, trustedProxyHeader = None\<rparr>]) ''1.2.3.4''
     = Some \<lparr>count = 1, resetTime = 61000\<rparr>
   \<and> map_of (step (Check ''1.2.3.4'' 2000
          \<lparr>maxRequests = 3, windowSeconds = 60, trustedProxyHeader = None\<rparr>)
        (run [Check ''1.2.3.4'' 1000
          \<lparr>maxRequests = 3, windowSeconds = 60, trustedProxyHeader = None\<rparr>])) ''1.2.3.4''
     = Some \<lparr>count = 2, resetTime = 61000\<rparr>
   \<and> map_of (step (Check ''1.2.3.4'' 61001
          \<lparr>maxRequests = 3, windowSeconds = 60, trustedProxyHeader = None\<rparr>)
        (run [Check ''1.2.3.4'' 1000
          \<lparr>maxRequests = 3, windowSeconds = 60, trustedProxyHeader = None\<rparr>])) ''1.2.3.4''
     = Some \<lparr>count = 1, resetTime = 121001\<rparr>
   \<and> map_of (step (Sweep 61001)
        (run [Check ''1.2.3.4'' 1000
          \<lparr>maxRequests = 3, windowSeconds = 60, trustedProxyHeader = None\<rparr>])) ''1.2.3.4''
     = None
   \<and> distinct (map fst (step (Sweep 61001)
        (run [Check ''1.2.3.4'' 1000
          \<lparr>maxRequests = 3, windowSeconds = 60, trustedProxyHeader = None\<rparr>])))"
  using C8_store_invariant [of "[Check ''1.2.3.4'' 1000
       \<lparr>maxRequests = 3, windowSeconds = 60, trustedProxyHeader = None\<rparr>]" "Sweep 61001"]
  by (simp add: run_def checkRateLimitFor_def cleanup_def Let_def)


section \<open>Properties of client identification\<close>

lemma split_first:
  "(case split sep s of [] \<Rightarrow> None | first # rest \<Rightarrow> Some first) = Some (takeWhile (\<lambda>c. c \<noteq> sep) s)"
  by (induction s) (auto split: list.splits)

lemma not_valid_empty: "\<not> isValidIpAddress []"
  by code_simp

lemma digit_char_inj:
  "a < 10 \<Longrightarrow> b < 10 \<Longrightarrow> digit_char a = digit_char b \<Longrightarrow> a = b"
proof -
  assume "a < 10" "b < 10" and eq: "digit_char a = digit_char b"
  then have "a \<in> {0, 1, 2, 3, 4, 5, 6, 7, 8, 9}" "b \<in> {0, 1, 2, 3, 4, 5, 6, 7, 8, 9}"
    by auto
  then show "a = b" using eq by (auto simp add: digit_char_def)
qed

lemma digit_char_not_dash: "d < 10 \<Longrightarrow> digit_char d \<noteq> CHR ''-''"
proof -
  assume "d < 10"
  then have "d \<in> {0, 1, 2, 3, 4, 5, 6, 7, 8, 9}" by auto
  then show ?thesis by (auto simp add: digit_char_def)
qed

lemma string_of_nat_no_dash: "CHR ''-'' \<notin> set (string_of_nat n)"
proof (induction n rule: string_of_nat.induct)
  case (1 n)
  show ?case
  proof (cases "n < 10")
    case True
    then show ?thesis using digit_char_not_dash [of n] by (simp add: string_of_nat.simps [of n])
  next
    case False
    then show ?thesis
      using 1 digit_char_not_dash [of "n mod 10"] by (simp add: string_of_nat.simps [of n])
  qed
qed

lemma string_of_nat_nonempty: "string_of_nat n \<noteq> []"
  by (subst string_of_nat.simps) simp

lemma string_of_nat_length_1: "length (string_of_nat n) = 1 \<longleftrightarrow> n < 10"
proof (cases "n < 10")
  case True
  then show ?thesis by (simp add: string_of_nat.simps [of n])
next
  case False
  then show ?thesis
    using string_of_nat_nonempty [of "n div 10"]
    by (simp add: string_of_nat.simps [of n] Suc_le_eq)
qed

lemma string_of_nat_inj: "string_of_nat m = string_of_nat n \<Longrightarrow> m = n"
proof (induction m arbitrary: n rule: string_of_nat.induct)
  case (1 m)
  have len: "length (string_of_nat m) = length (string_of_nat n)" using "1.prems" by simp
  show ?case
  proof (cases "m < 10")
    case True
    then have "n < 10" using len string_of_nat_length_1 [of m] string_of_nat_length_1 [of n] by simp
    then show ?thesis
      using True "1.prems" digit_char_inj [of m n]
      by (simp add: string_of_nat.simps [of m] string_of_nat.simps [of n])
  next
    case False
    then have n: "\<not> n < 10" using len string_of_nat_length_1 [of m] string_of_nat_length_1 [of n] by simp
    from "1.prems" False n
    have eq: "string_of_nat (m div 10) @ [digit_char (m mod 10)]
            = string_of_nat (n div 10) @ [digit_char (n mod 10)]"
      by (simp add: string_of_nat.simps [of m] string_of_nat.simps [of n])
    then have "string_of_nat (m div 10) = string_of_nat (n div 10)"
      and d: "digit_char (m mod 10) = digit_char (n mod 10)" by simp_all
    then have "m div 10 = n div 10" using "1.IH" False by blast
    moreover have "m mod 10 = n mod 10" using d digit_char_inj [of "m mod 10" "n mod 10"] by simp
    ultimately show ?thesis by (metis div_mult_mod_eq)
  qed
qed

lemma dash_separated_inj:
  "CHR ''-'' \<notin> set a \<Longrightarrow> CHR ''-'' \<notin> set a' \<Longrightarrow>
     a @ CHR ''-'' # r = a' @ CHR ''-'' # r' \<Longrightarrow> a = a' \<and> r = r'"
proof (induction a arbitrary: a')
  case Nil
  then show ?case by (cases a') auto
next
  case (Cons x a)
  then show ?case by (cases a') auto
qed

lemma fallbackId_inj:
  "fallbackId now random = fallbackId now' random' \<longleftrightarrow> now = now' \<and> random = random'"
proof
  assume "fallbackId now random = fallbackId now' random'"
  then have "string_of_nat now @ CHR ''-'' # random = string_of_nat now' @ CHR ''-'' # random'"
    by (simp add: fallbackId_def)
  then have "string_of_nat now = string_of_nat now' \<and> random = random'"
    by (rule dash_separated_inj [OF string_of_nat_no_dash string_of_nat_no_dash])
  then show "now = now' \<and> random = random'" using string_of_nat_inj by blast
qed simp

lemma rmatch_ipv4_u: "rmatch ipv4Regex (CHR ''u'' # s) = []"
  by (simp add: ipv4Regex_def octetRx_def digitRx_def eval_nat_numeral)

lemma rmatch_ipv6_u: "rmatch ipv6Regex (CHR ''u'' # s) = []"
  by (simp add: ipv6Regex_def hexColonRx_def colonHexRx_def hex4Rx_def digitRx_def eval_nat_numeral)

lemma fallbackId_not_ip: "\<not> isValidIpAddress (fallbackId now random)"
  by (simp add: isValidIpAddress_def regex_test_def fallbackId_def rmatch_ipv4_u rmatch_ipv6_u)

text \<open>
  Claim C4 as stated fails in its last part: the fallback id is a function of the clock
  reading and of the random string only, so two different unidentifiable requests whose
  readings coincide get the same id and share one bucket. Here the first has no header
  and the second an invalid one; with \<open>maxRequests = 1\<close> the second is denied.
\<close>

theorem C4_equal_readings_counterexample:
  "\<lparr>Request.headers = [], jsonBody = None\<rparr>
     \<noteq> \<lparr>Request.headers = [(''x-forwarded-for'', ''invalid-ip-address'')], jsonBody = None\<rparr>
   \<and> getClientId \<lparr>Request.headers = [], jsonBody = None\<rparr>
       (Some XForwardedFor) 1000 ''k3j2h1'' = ''unknown-1000-k3j2h1''
   \<and> getClientId \<lparr>Request.headers = [(''x-forwarded-for'', ''invalid-ip-address'')], jsonBody = None\<rparr>
       (Some XForwardedFor) 1000 ''k3j2h1'' = ''unknown-1000-k3j2h1''
   \<and> allowed (fst (checkRateLimit \<lparr>Request.headers = [], jsonBody = None\<rparr>
         (Some \<lparr>maxRequests = 1, windowSeconds = 60, trustedProxyHeader = Some XForwardedFor\<rparr>)
         \<lparr>idNow = 1000, idRandom = ''k3j2h1'', checkNow = 1000\<rparr> []))
   \<and> \<not> allowed (fst (checkRateLimit
         \<lparr>Request.headers = [(''x-forwarded-for'', ''invalid-ip-address'')], jsonBody = None\<rparr>
         (Some \<lparr>maxRequests = 1, windowSeconds = 60, trustedProxyHeader = Some XForwardedFor\<rparr>)
         \<lparr>idNow = 1000, idRandom = ''k3j2h1'', checkNow = 1000\<rparr>
         (snd (checkRateLimit \<lparr>Request.headers = [], jsonBody = None\<rparr>
            (Some \<lparr>maxRequests = 1, windowSeconds = 60, trustedProxyHeader = Some XForwardedFor\<rparr>)
            \<lparr>idNow = 1000, idRandom = ''k3j2h1'', checkNow = 1000\<rparr> []))))"
proof -
  have nv: "\<not> isValidIpAddress ''invalid-ip-address''" by code_simp
  have id1: "getClientId \<lparr>Request.headers = [], jsonBody = None\<rparr>
       (Some XForwardedFor) 1000 ''k3j2h1'' = ''unknown-1000-k3j2h1''"
    by (simp add: getClientId_def headers_get_def fallbackId_def string_of_nat.simps digit_char_def)
  have id2: "getClientId \<lparr>Request.headers = [(''x-forwarded-for'', ''invalid-ip-address'')], jsonBody = None\<rparr>
       (Some XForwardedFor) 1000 ''k3j2h1'' = ''unknown-1000-k3j2h1''"
    using nv
    by (simp add: getClientId_def headers_get_def trim_def isWhiteSpace_def fallbackId_def
          string_of_nat.simps digit_char_def)
  show ?thesis
    by (simp add: id1 id2 checkRateLimit_def checkRateLimitFor_def Let_def)
qed

text \<open>
  Claim C4, amended. With the trusted header \<open>x-forwarded-for\<close> the client id is the first
  comma-separated entry of the header value, trimmed, when that entry matches the IPv4 or
  the IPv6 pattern; when it does not, when the header is missing, and when no header is
  trusted, the id is the fallback \<open>unknown-<clock>-<random>\<close>, built from the clock reading
  and the random string of that request. Two fallback ids are equal if and only if both
  the clock reading and the random string of the two requests are equal, and a fallback
  id is never a valid address, so it never meets the bucket of an identified client.
\<close>

theorem C4_client_id:
  "getClientId request (Some XForwardedFor) now random =
     (case headers_get request ''x-forwarded-for'' of
        None \<Rightarrow> fallbackId now random
      | Some v \<Rightarrow>
          if isValidIpAddress (trim (takeWhile (\<lambda>c. c \<noteq> CHR '','') v))
          then trim (takeWhile (\<lambda>c. c \<noteq> CHR '','') v)
          else fallbackId now random)
   \<and> getClientId request None now random = fallbackId now random
   \<and> (fallbackId now random = fallbackId now' random' \<longleftrightarrow> now = now' \<and> random = random')
   \<and> \<not> isValidIpAddress (fallbackId now random)"
proof (intro conjI)
  show "getClientId request (Some XForwardedFor) now random =
     (case headers_get request ''x-forwarded-for'' of
        None \<Rightarrow> fallbackId now random
      | Some v \<Rightarrow>
          if isValidIpAddress (trim (takeWhile (\<lambda>c. c \<noteq> CHR '','') v))
          then trim (takeWhile (\<lambda>c. c \<noteq> CHR '','') v)
          else fallbackId now random)"
  proof (cases "headers_get request ''x-forwarded-for''")
    case None
    then show ?thesis by (simp add: getClientId_def)
  next
    case (Some v)
    have "split CHR '','' v \<noteq> []" by (cases v) (auto split: list.splits)
    then obtain first rest where sp: "split CHR '','' v = first # rest"
      by (cases "split CHR '','' v") auto
    with split_first [of "CHR '',''" v] have first: "first = takeWhile (\<lambda>c. c \<noteq> CHR '','') v"
      by simp
    show ?thesis
      using Some sp first not_valid_empty by (auto simp add: getClientId_def Let_def)
  qed
  show "getClientId request None now random = fallbackId now random"
    by (simp add: getClientId_def)
  show "fallbackId now random = fallbackId now' random' \<longleftrightarrow> now = now' \<and> random = random'"
    by (rule fallbackId_inj)
  show "\<not> isValidIpAddress (fallbackId now random)"
    by (rule fallbackId_not_ip)
qed

theorem C4_client_id_witness:
  "getClientId \<lparr>Request.headers = [(''x-forwarded-for'', ''1.2.3.4, 5.6.7.8'')], jsonBody = None\<rparr>
       (Some XForwardedFor) 1000 ''k3j2h1'' = ''1.2.3.4''
   \<and> getClientId \<lparr>Request.headers = [(''x-forwarded-for'', ''invalid-ip-address'')], jsonBody = None\<rparr>
       (Some XForwardedFor) 1000 ''k3j2h1'' = ''unknown-1000-k3j2h1''
   \<and> getClientId \<lparr>Request.headers = [], jsonBody = None\<rparr>
       (Some XForwardedFor) 1000 ''k3j2h1'' = ''unknown-1000-k3j2h1''
   \<and> getClientId \<lparr>Request.headers = [(''x-forwarded-for'', ''1.2.3.4'')], jsonBody = None\<rparr>
       None 1000 ''k3j2h1'' = ''unknown-1000-k3j2h1''
   \<and> fallbackId 1000 ''k3j2h1'' \<noteq> fallbackId 1000 ''9zq0aa''"
proof -
  have v: "isValidIpAddress ''1.2.3.4''" by code_simp
  have nv: "\<not> isValidIpAddress ''invalid-ip-address''" by code_simp
  show ?thesis
    using v nv
      C4_client_id [of "\<lparr>Request.headers = [(''x-forwarded-for'', ''1.2.3.4, 5.6.7.8'')], jsonBody = None\<rparr>"
        1000 "''k3j2h1''" 1000 "''9zq0aa''"]
      C4_client_id [of "\<lparr>Request.headers = [(''x-forwarded-for'', ''invalid-ip-address'')], jsonBody = None\<rparr>"
        1000 "''k3j2h1''" 1000 "''9zq0aa''"]
      C4_client_id [of "\<lparr>Request.headers = [], jsonBody = None\<rparr>" 1000 "''k3j2h1''" 1000 "''9zq0aa''"]
      C4_client_id [of "\<lparr>Request.headers = [(''x-forwarded-for'', ''1.2.3.4'')], jsonBody = None\<rparr>"
        1000 "''k3j2h1''" 1000 "''9zq0aa''"]
    by (simp add: headers_get_def trim_def isWhiteSpace_def fallbackId_def
          string_of_nat.simps digit_char_def)
qed

section \<open>Properties of origin validation\<close>

lemma validateOrigin_production:
  assumes prod: "case envOverride of
                   Some e \<Rightarrow> \<not> isDevelopment e \<and> \<not> isTest e
                 | None \<Rightarrow> \<not> env_isDevelopment env \<and> \<not> env_isTest env"
  shows "validateOrigin newURL env request siteUrl envOverride =
           (case requestOriginOf newURL (headers_get request ''origin'')
                   (headers_get request ''referer'') of
              Inl e \<Rightarrow> Inl e
            | Inr None \<Rightarrow> Inr False
            | Inr (Some ro) \<Rightarrow>
                Inr (ro \<noteq> [] \<and> (case siteUrl of None \<Rightarrow> False | Some site \<Rightarrow> ro = origin site)))"
  using prod
  by (auto simp add: validateOrigin_def Let_def split: option.splits sum.splits list.splits)

lemma requestOriginOf_header:
  "originHeader = Some (c # cs) \<Longrightarrow> requestOriginOf newURL originHeader referer = Inr originHeader"
  by (simp add: requestOriginOf_def)

lemma requestOriginOf_referer:
  "originHeader = None \<or> originHeader = Some [] \<Longrightarrow> referer = Some (c # cs) \<Longrightarrow>
     requestOriginOf newURL originHeader referer =
       (case newURL (c # cs) of None \<Rightarrow> Inl TypeError | Some u \<Rightarrow> Inr (Some (origin u)))"
  by (auto simp add: requestOriginOf_def)

text \<open>
  Claim C1. In production mode (neither development nor test, whether the mode comes from
  \<open>envOverride\<close> or from the environment) \<open>validateOrigin\<close> returns false whenever the request
  origin, that is the \<open>Origin\<close> header or else the origin of the parsed \<open>Referer\<close>, is any
  string other than the origin of the site: a proper superstring, a substring, a sibling
  subdomain and a typosquat all differ from it, and only equality is accepted.
\<close>

theorem C1_production_exact_match:
  assumes "case envOverride of
             Some e \<Rightarrow> \<not> isDevelopment e \<and> \<not> isTest e
           | None \<Rightarrow> \<not> env_isDevelopment env \<and> \<not> env_isTest env"
    and "requestOriginOf newURL (headers_get request ''origin'') (headers_get request ''referer'')
           = Inr requestOrigin"
    and "\<forall>site. siteUrl = Some site \<longrightarrow> requestOrigin \<noteq> Some (origin site)"
  shows "validateOrigin newURL env request siteUrl envOverride = Inr False"
  using assms(2,3)
  by (auto simp add: validateOrigin_production [OF assms(1)] split: option.splits)

theorem C1_production_exact_match_witness:
  "validateOrigin sampleURL \<lparr>metaEnv = None, processEnv = None\<rparr>
      \<lparr>Request.headers = [(''origin'', ''https://evil.example.com'')], jsonBody = None\<rparr>
      (Some \<lparr>origin = ''https://example.com''\<rparr>)
      (Some \<lparr>isDevelopment = False, isTest = False\<rparr>) = Inr False
   \<and> validateOrigin sampleURL \<lparr>metaEnv = None, processEnv = None\<rparr>
      \<lparr>Request.headers = [(''origin'', ''https://example.com.evil.com'')], jsonBody = None\<rparr>
      (Some \<lparr>origin = ''https://example.com''\<rparr>)
      (Some \<lparr>isDevelopment = False, isTest = False\<rparr>) = Inr False
   \<and> validateOrigin sampleURL \<lparr>metaEnv = None, processEnv = None\<rparr>
      \<lparr>Request.headers = [(''origin'', ''https://examp1e.com'')], jsonBody = None\<rparr>
      (Some \<lparr>origin = ''https://example.com''\<rparr>)
      (Some \<lparr>isDevelopment = False, isTest = False\<rparr>) = Inr False
   \<and> validateOrigin sampleURL \<lparr>metaEnv = None, processEnv = None\<rparr>
      \<lparr>Request.headers = [(''origin'', ''https://example.co'')], jsonBody = None\<rparr>
      (Some \<lparr>origin = ''https://example.com''\<rparr>)
      (Some \<lparr>isDevelopment = False, isTest = False\<rparr>) = Inr False
   \<and> validateOrigin sampleURL \<lparr>metaEnv = None, processEnv = Some [(''NODE_ENV'', ''production'')]\<rparr>
      \<lparr>Request.headers = [(''referer'', ''https://evil.example.com/page'')], jsonBody = None\<rparr>
      (Some \<lparr>origin = ''https://example.com''\<rparr>) None = Inr False"
proof -
  let ?site = "\<lparr>origin = ''https://example.com''\<rparr>"
  let ?prod = "Some \<lparr>isDevelopment = False, isTest = False\<rparr>"
  have p: "case ?prod of Some e \<Rightarrow> \<not> isDevelopment e \<and> \<not> isTest e
           | None \<Rightarrow> \<not> env_isDevelopment env \<and> \<not> env_isTest env" for env
    by simp
  have p': "case None of Some e \<Rightarrow> \<not> isDevelopment e \<and> \<not> isTest e
            | None \<Rightarrow> \<not> env_isDevelopment \<lparr>metaEnv = None, processEnv = Some [(''NODE_ENV'', ''production'')]\<rparr>
                     \<and> \<not> env_isTest \<lparr>metaEnv = None, processEnv = Some [(''NODE_ENV'', ''production'')]\<rparr>"
    by (simp add: env_isDevelopment_def env_isTest_def nodeEnv_def getEnv_def)
  have h: "requestOriginOf sampleURL
             (headers_get \<lparr>Request.headers = [(''origin'', o')], jsonBody = None\<rparr> ''origin'')
             (headers_get \<lparr>Request.headers = [(''origin'', o')], jsonBody = None\<rparr> ''referer'')
           = Inr (Some o')" if "o' \<noteq> []" for o'
    using that by (cases o') (simp_all add: requestOriginOf_def headers_get_def)
  have r: "requestOriginOf sampleURL
             (headers_get \<lparr>Request.headers = [(''referer'', ''https://evil.example.com/page'')], jsonBody = None\<rparr> ''origin'')
             (headers_get \<lparr>Request.headers = [(''referer'', ''https://evil.example.com/page'')], jsonBody = None\<rparr> ''referer'')
           = Inr (Some ''https://evil.example.com'')"
    by (simp add: requestOriginOf_def headers_get_def sampleURL_def)
  show ?thesis
    using C1_production_exact_match [OF p h, of "''https://evil.example.com''" "Some ?site"]
      C1_production_exact_match [OF p h, of "''https://example.com.evil.com''" "Some ?site"]
      C1_production_exact_match [OF p h, of "''https://examp1e.com''" "Some ?site"]
      C1_production_exact_match [OF p h, of "''https://example.co''" "Some ?site"]
      C1_production_exact_match [OF p' r, of "Some ?site"]
    by simp
qed

text \<open>
  Claim C3 as stated fails: the \<open>Origin\<close> header is compared as sent, with \<^verbatim>\<open>===\<close>, against
  \<^verbatim>\<open>siteUrl.origin\<close>. For the site \<^verbatim>\<open>https://example.com\<close> the headers \<^verbatim>\<open>https://EXAMPLE.COM\<close> and
  \<^verbatim>\<open>https://example.com:443\<close> are rejected in production.
\<close>

theorem C3_origin_header_counterexample:
  "validateOrigin sampleURL \<lparr>metaEnv = None, processEnv = None\<rparr>
      \<lparr>Request.headers = [(''origin'', ''https://EXAMPLE.COM'')], jsonBody = None\<rparr>
      (Some \<lparr>origin = ''https://example.com''\<rparr>)
      (Some \<lparr>isDevelopment = False, isTest = False\<rparr>) = Inr False
   \<and> validateOrigin sampleURL \<lparr>metaEnv = None, processEnv = None\<rparr>
      \<lparr>Request.headers = [(''origin'', ''https://example.com:443'')], jsonBody = None\<rparr>
      (Some \<lparr>origin = ''https://example.com''\<rparr>)
      (Some \<lparr>isDevelopment = False, isTest = False\<rparr>) = Inr False"
  by (simp add: validateOrigin_def requestOriginOf_def headers_get_def)

text \<open>
  Claim C3, amended. If a site origin is configured and the request origin (the non-empty
  \<open>Origin\<close> header as sent, or else the origin of the parsed \<open>Referer\<close>) is the same string
  as \<^verbatim>\<open>siteUrl.origin\<close>, then \<open>validateOrigin\<close> returns true in every environment mode. Host
  case and default ports are normalised only where a URL is parsed, that is in the site
  URL and in the \<open>Referer\<close>.
\<close>

theorem C3_same_origin_accepted:
  assumes "requestOriginOf newURL (headers_get request ''origin'') (headers_get request ''referer'')
             = Inr (Some (origin site))"
    and "origin site \<noteq> []"
  shows "validateOrigin newURL env request (Some site) envOverride = Inr True"
  using assms
  by (auto simp add: validateOrigin_def Let_def split: option.splits list.splits)

theorem C3_same_origin_accepted_witness:
  "validateOrigin sampleURL \<lparr>metaEnv = None, processEnv = None\<rparr>
      \<lparr>Request.headers = [(''origin'', ''https://example.com'')], jsonBody = None\<rparr>
      (Some \<lparr>origin = ''https://example.com''\<rparr>)
      (Some \<lparr>isDevelopment = False, isTest = False\<rparr>) = Inr True
   \<and> validateOrigin sampleURL \<lparr>metaEnv = None, processEnv = None\<rparr>
      \<lparr>Request.headers = [(''origin'', ''https://example.com'')], jsonBody = None\<rparr>
      (Some \<lparr>origin = ''https://example.com''\<rparr>)
      (Some \<lparr>isDevelopment = True, isTest = False\<rparr>) = Inr True
   \<and> validateOrigin sampleURL \<lparr>metaEnv = None, processEnv = None\<rparr>
      \<lparr>Request.headers = [(''referer'', ''https://EXAMPLE.COM:443/docs'')], jsonBody = None\<rparr>
      (Some \<lparr>origin = ''https://example.com''\<rparr>)
      (Some \<lparr>isDevelopment = False, isTest = False\<rparr>) = Inr True"
proof -
  let ?site = "\<lparr>origin = ''https://example.com''\<rparr>"
  have h: "requestOriginOf sampleURL
             (headers_get \<lparr>Request.headers = [(''origin'', ''https://example.com'')], jsonBody = None\<rparr> ''origin'')
             (headers_get \<lparr>Request.headers = [(''origin'', ''https://example.com'')], jsonBody = None\<rparr> ''referer'')
           = Inr (Some (origin ?site))"
    by (simp add: requestOriginOf_def headers_get_def)
  have r: "requestOriginOf sampleURL
             (headers_get \<lparr>Request.headers = [(''referer'', ''https://EXAMPLE.COM:443/docs'')], jsonBody = None\<rparr> ''origin'')
             (headers_get \<lparr>Request.headers = [(''referer'', ''https://EXAMPLE.COM:443/docs'')], jsonBody = None\<rparr> ''referer'')
           = Inr (Some (origin ?site))"
    by (simp add: requestOriginOf_def headers_get_def sampleURL_def)
  have n: "origin ?site \<noteq> []" by simp
  show ?thesis
    using C3_same_origin_accepted [OF h n] C3_same_origin_accepted [OF r n]
    by simp
qed

text \<open>
  Claim C5 as stated fails: an empty \<open>Referer\<close> header is present and is not a URL
  (\<^verbatim>\<open>new URL('')\<close> throws), but line 46 tests \<^verbatim>\<open>referer ? ... : null\<close> and an empty string is
  falsy, so nothing is parsed and nothing is raised: the request is treated as one
  without origin, rejected in production and accepted in development.
\<close>

theorem C5_empty_referer_counterexample:
  "sampleURL [] = None
   \<and> validateOrigin sampleURL \<lparr>metaEnv = None, processEnv = None\<rparr>
      \<lparr>Request.headers = [(''referer'', [])], jsonBody = None\<rparr>
      (Some \<lparr>origin = ''https://example.com''\<rparr>)
      (Some \<lparr>isDevelopment = False, isTest = False\<rparr>) = Inr False
   \<and> validateOrigin sampleURL \<lparr>metaEnv = None, processEnv = None\<rparr>
      \<lparr>Request.headers = [(''referer'', [])], jsonBody = None\<rparr>
      (Some \<lparr>origin = ''https://example.com''\<rparr>)
      (Some \<lparr>isDevelopment = True, isTest = False\<rparr>) = Inr True"
  by (simp add: validateOrigin_def requestOriginOf_def headers_get_def sampleURL_def)

text \<open>
  Claim C5, amended. When the \<open>Origin\<close> header is absent (or empty) and the \<open>Referer\<close> header
  is non-empty and not a parseable URL, \<open>validateOrigin\<close> raises the \<^verbatim>\<open>TypeError\<close> of the URL
  constructor, in every environment mode and for every site; the handler \<open>POST\<close> does not
  catch it.
\<close>

theorem C5_malformed_referer_raises:
  assumes "headers_get request ''origin'' = None \<or> headers_get request ''origin'' = Some []"
    and "headers_get request ''referer'' = Some r"
    and "r \<noteq> []"
    and "newURL r = None"
  shows "validateOrigin newURL env request siteUrl envOverride = Inl TypeError
       \<and> POST newURL env search request siteUrl rd rr store = Inl TypeError"
proof -
  obtain c cs where r: "r = c # cs" using assms(3) by (cases r) auto
  have "requestOriginOf newURL (headers_get request ''origin'') (headers_get request ''referer'')
          = Inl TypeError"
    using requestOriginOf_referer [OF assms(1), of "headers_get request ''referer''" c cs newURL]
      assms(2,4) r by simp
  then have "validateOrigin newURL env request siteUrl envOverride = Inl TypeError" for envOverride
    by (simp add: validateOrigin_def Let_def)
  then show ?thesis by (simp add: POST_def)
qed

theorem C5_malformed_referer_raises_witness:
  "validateOrigin sampleURL \<lparr>metaEnv = None, processEnv = None\<rparr>
      \<lparr>Request.headers = [(''referer'', ''not-a-valid-url'')], jsonBody = None\<rparr>
      (Some \<lparr>origin = ''https://example.com''\<rparr>)
      (Some \<lparr>isDevelopment = False, isTest = False\<rparr>) = Inl TypeError
   \<and> validateOrigin sampleURL \<lparr>metaEnv = None, processEnv = None\<rparr>
      \<lparr>Request.headers = [(''referer'', ''not-a-valid-url'')], jsonBody = None\<rparr>
      None (Some \<lparr>isDevelopment = True, isTest = False\<rparr>) = Inl TypeError"
proof -
  let ?req = "\<lparr>Request.headers = [(''referer'', ''not-a-valid-url'')], jsonBody = None\<rparr>"
  have a: "headers_get ?req ''origin'' = None \<or> headers_get ?req ''origin'' = Some []"
    by (simp add: headers_get_def)
  have b: "headers_get ?req ''referer'' = Some ''not-a-valid-url''"
    by (simp add: headers_get_def)
  have c: "''not-a-valid-url'' \<noteq> []" by simp
  have d: "sampleURL ''not-a-valid-url'' = None" by (simp add: sampleURL_def)
  show ?thesis
    using C5_malformed_referer_raises [where newURL = sampleURL and request = ?req
        and r = "''not-a-valid-url''", OF a b c d]
    by simp
qed

section \<open>Properties of the handlers\<close>




lemma sanitizedLimit_default:
  assumes "v = JNum NaN \<or> v = JNum PosInfinity \<or> v = JNum NegInfinity
           \<or> (\<exists>s. v = JStr s \<and> (\<forall>parsed. parseInt10 s \<noteq> Finite parsed))"
  shows "sanitizedLimit (Some v) = 10"
  using assms by (auto simp add: sanitizedLimit_def Let_def split: jsnum.splits)

lemma searchResponse_valid_query:
  assumes "map_of (rev kvs) (ustr ''query'') = Some (JStr q)" and "q \<noteq> []" and "length q \<le> 500"
  shows "searchResponse search hdrs (Some (JObj kvs)) =
           (case search q (sanitizedLimit (map_of (rev kvs) (ustr ''limit''))) of
              None \<Rightarrow>
                \<lparr>status = 500, headers = hdrs,
                 body = errorBody ''Search failed''
                   ''An error occurred while processing your search request.''\<rparr>
            | Some results \<Rightarrow>
                \<lparr>status = 200, headers = hdrs,
                 body = JObj [(ustr ''results'', JArr results),
                              (ustr ''count'', JNum (Finite (of_nat (length results)))),
                              (ustr ''query'', JStr q)]\<rparr>)"
  using assms by (simp add: searchResponse_def property_def)

text \<open>
  Claim C10. When the \<open>limit\<close> property of the body is a non-finite number, or a string that
  \<^verbatim>\<open>parseInt\<close> does not turn into a finite number, the limit passed on is the default 10
  (which the clamp to 1..20 leaves alone), as if the property were absent. With a valid
  query the handler goes on to the search: the answer is 200 with the results of
  \<open>search q 10\<close>, or 500 when the search fails, never 400. This holds for both copies of
  the handler, once the request has passed the checks that come before the body is read.
\<close>

theorem C10_unparseable_limit_defaults:
  assumes "v = JNum NaN \<or> v = JNum PosInfinity \<or> v = JNum NegInfinity
           \<or> (\<exists>s. v = JStr s \<and> (\<forall>parsed. parseInt10 s \<noteq> Finite parsed))"
    and "jsonBody request = Some (JObj kvs)"
    and "map_of (rev kvs) (ustr ''limit'') = Some v"
    and "map_of (rev kvs) (ustr ''query'') = Some (JStr q)"
    and "q \<noteq> []" and "length q \<le> 500"
  shows "sanitizedLimit (Some v) = 10
       \<and> sanitizedLimit (Some v) = sanitizedLimit None
       \<and> searchResponse search hdrs (jsonBody request) =
           (case search q 10 of
              None \<Rightarrow>
                \<lparr>status = 500, headers = hdrs,
                 body = errorBody ''Search failed''
                   ''An error occurred while processing your search request.''\<rparr>
            | Some results \<Rightarrow>
                \<lparr>status = 200, headers = hdrs,
                 body = JObj [(ustr ''results'', JArr results),
                              (ustr ''count'', JNum (Finite (of_nat (length results)))),
                              (ustr ''query'', JStr q)]\<rparr>)
       \<and> status (searchResponse search hdrs (jsonBody request)) \<noteq> 400
       \<and> (validateOrigin newURL env request site None = Inr True
            \<and> allowed (fst (checkRateLimit request
                 (Some \<lparr>maxRequests = 20, windowSeconds = 60,
                         trustedProxyHeader = Some XForwardedFor\<rparr>) rd store)) \<longrightarrow>
          (case POST newURL env search request site rd rr store of
             Inl e \<Rightarrow> False
           | Inr (response, store') \<Rightarrow>
               status response = (case search q 10 of None \<Rightarrow> 500 | Some results \<Rightarrow> 200)
               \<and> body response = body (searchResponse search hdrs (jsonBody request))))
       \<and> (allowed r \<longrightarrow>
            status (POST_search_json r search request rr)
              = (case search q 10 of None \<Rightarrow> 500 | Some results \<Rightarrow> 200)
            \<and> body (POST_search_json r search request rr)
              = body (searchResponse search hdrs (jsonBody request)))"
proof -
  have lim: "sanitizedLimit (Some v) = 10"
    using assms(1) by (rule sanitizedLimit_default)
  have dflt: "sanitizedLimit None = 10"
    by (simp add: sanitizedLimit_def)
  have resp: "searchResponse search h (jsonBody request) =
           (case search q 10 of
              None \<Rightarrow>
                \<lparr>status = 500, headers = h,
                 body = errorBody ''Search failed''
                   ''An error occurred while processing your search request.''\<rparr>
            | Some results \<Rightarrow>
                \<lparr>status = 200, headers = h,
                 body = JObj [(ustr ''results'', JArr results),
                              (ustr ''count'', JNum (Finite (of_nat (length results)))),
                              (ustr ''query'', JStr q)]\<rparr>)" for h
    using searchResponse_valid_query [OF assms(4-6), of search h] assms(2,3) lim by simp
  have st: "status (searchResponse search h (jsonBody request))
              = (case search q 10 of None \<Rightarrow> 500 | Some results \<Rightarrow> 200)" for h
    by (simp add: resp split: option.splits)
  have bd: "body (searchResponse search h (jsonBody request))
              = body (searchResponse search hdrs (jsonBody request))" for h
    by (simp add: resp split: option.splits)
  have post: "case POST newURL env search request site rd rr store of
             Inl e \<Rightarrow> False
           | Inr (response, store') \<Rightarrow>
               status response = (case search q 10 of None \<Rightarrow> 500 | Some results \<Rightarrow> 200)
               \<and> body response = body (searchResponse search hdrs (jsonBody request))"
    if "validateOrigin newURL env request site None = Inr True"
      and "allowed (fst (checkRateLimit request
                 (Some \<lparr>maxRequests = 20, windowSeconds = 60,
                         trustedProxyHeader = Some XForwardedFor\<rparr>) rd store))"
    using that st bd by (simp add: POST_def Let_def case_prod_beta)
  have legacy: "status (POST_search_json r search request rr)
              = (case search q 10 of None \<Rightarrow> 500 | Some results \<Rightarrow> 200)
            \<and> body (POST_search_json r search request rr)
              = body (searchResponse search hdrs (jsonBody request))" if "allowed r"
    using that st bd by (simp add: POST_search_json_def Let_def)
  have ne: "status (searchResponse search hdrs (jsonBody request)) \<noteq> 400"
    by (simp add: st split: option.splits)
  show ?thesis
    using lim dflt resp [of hdrs] ne post legacy by simp
qed

theorem C10_unparseable_limit_defaults_witness:
  "parseInt10 (ustr ''abc'') = NaN
   \<and> sanitizedLimit (Some (JStr (ustr ''abc''))) = 10
   \<and> sanitizedLimit (Some (JNum PosInfinity)) = 10
   \<and> (case
        POST sampleURL \<lparr>metaEnv = None, processEnv = None\<rparr>
          (\<lambda>q n. if n = 10 then Some [] else None)
          \<lparr>Request.headers = [(''origin'', ''https://example.com'')],
            jsonBody = Some (JObj [(ustr ''query'', JStr (ustr ''hello'')),
                                   (ustr ''limit'', JStr (ustr ''abc''))])\<rparr>
          (Some \<lparr>origin = ''https://example.com''\<rparr>)
          \<lparr>idNow = 1000, idRandom = ''k3j2h1'', checkNow = 1000\<rparr>
          \<lparr>bodyNow = 1000, headerNow = 1000\<rparr> []
       of Inl e \<Rightarrow> False
        | Inr (response, store') \<Rightarrow> status response = 200)
   \<and> status (POST_search_json
        \<lparr>allowed = True, limit = 20, remaining = 19, resetTime = 61000\<rparr>
        (\<lambda>q n. if n = 10 then Some [] else None)
        \<lparr>Request.headers = [(''origin'', ''https://example.com'')],
          jsonBody = Some (JObj [(ustr ''query'', JStr (ustr ''hello'')),
                                 (ustr ''limit'', JStr (ustr ''abc''))])\<rparr>
        \<lparr>bodyNow = 1000, headerNow = 1000\<rparr>) = 200"
proof -
  let ?req = "\<lparr>Request.headers = [(''origin'', ''https://example.com'')],
            jsonBody = Some (JObj [(ustr ''query'', JStr (ustr ''hello'')),
                                   (ustr ''limit'', JStr (ustr ''abc''))])\<rparr>"
  let ?site = "Some \<lparr>origin = ''https://example.com''\<rparr>"
  let ?env = "\<lparr>metaEnv = None, processEnv = None\<rparr>"
  let ?rd = "\<lparr>idNow = 1000, idRandom = ''k3j2h1'', checkNow = 1000\<rparr>"
  let ?cfg = "\<lparr>maxRequests = 20, windowSeconds = 60, trustedProxyHeader = Some XForwardedFor\<rparr>"
  let ?kvs = "[(ustr ''query'', JStr (ustr ''hello'')), (ustr ''limit'', JStr (ustr ''abc''))]"
  let ?r = "\<lparr>allowed = True, limit = 20, remaining = 19, resetTime = 61000\<rparr>"
  have nan: "parseInt10 (ustr ''abc'') = NaN"
    by (simp add: parseInt10_def ustr_def isStrWhiteSpaceChar_def isDecimalDigit_def)
  have a1: "JStr (ustr ''abc'') = JNum NaN \<or> JStr (ustr ''abc'') = JNum PosInfinity
            \<or> JStr (ustr ''abc'') = JNum NegInfinity
            \<or> (\<exists>s. JStr (ustr ''abc'') = JStr s \<and> (\<forall>parsed. parseInt10 s \<noteq> Finite parsed))"
    using nan by simp
  have a2: "jsonBody ?req = Some (JObj ?kvs)" by simp
  have a3: "map_of (rev ?kvs) (ustr ''limit'') = Some (JStr (ustr ''abc''))"
    by (simp add: ustr_def)
  have a4: "map_of (rev ?kvs) (ustr ''query'') = Some (JStr (ustr ''hello''))"
    by (simp add: ustr_def)
  have a5: "ustr ''hello'' \<noteq> []" and a6: "length (ustr ''hello'') \<le> 500"
    by (simp_all add: ustr_def)
  have o: "validateOrigin sampleURL ?env ?req ?site None = Inr True"
    by (simp add: validateOrigin_def requestOriginOf_def headers_get_def)
  have al: "allowed (fst (checkRateLimit ?req (Some ?cfg) ?rd []))"
    by (simp add: checkRateLimit_def checkRateLimitFor_result Let_def)
  have r: "allowed ?r" by simp
  have inf: "sanitizedLimit (Some (JNum PosInfinity)) = 10"
    by (simp add: sanitizedLimit_def)
  show ?thesis
    using nan inf o al r
      C10_unparseable_limit_defaults [where newURL = sampleURL and env = ?env and site = ?site
        and search = "\<lambda>q n. if n = 10 then Some [] else None" and rd = ?rd and store = "[]"
        and rr = "\<lparr>bodyNow = 1000, headerNow = 1000\<rparr>" and r = ?r and hdrs = "[]",
        OF a1 a2 a3 a4 a5 a6]
    by (auto split: sum.splits)
qed


end
